theory Spec2Isabelle
  imports Main "HOL-Library.Sublist"
begin

section \<open>Python values, exceptions and HTTP responses\<close>

text \<open>
  The values the two services handle are what \<^verbatim>\<open>response.json()\<close> and
  \<^verbatim>\<open>json.loads\<close> produce. \<open>JNull\<close> is Python's \<^verbatim>\<open>None\<close>; a
  dictionary is the association list of its items (keys of a parsed object are distinct).
  Numbers are Python's unbounded integers; non-integer JSON numbers are not modelled (no
  column read here holds one).
\<close>

datatype json =
    JNull
  | JBool bool
  | JNum int
  | JStr string
  | JArr "json list"
  | JObj "(string \<times> json) list"

text \<open>
  The exceptions that can arise in the modelled code. \<open>GenericException\<close> is an instance
  of the base class \<^verbatim>\<open>Exception\<close> itself; \<open>RequestException\<close> is whatever
  \<^verbatim>\<open>requests.get\<close> raises (connection error, timeout); \<open>RecursionError\<close> is what the
  interpreter raises at a call that would exceed its recursion limit.
\<close>

datatype py_error =
    ValueError string
  | GenericException string
  | TypeError string
  | KeyError
  | IndexError
  | AttributeError
  | JSONDecodeError
  | RequestException
  | RecursionError

text \<open>
  A response carries its status code and its body; \<open>json_body = None\<close> is a body on which
  \<^verbatim>\<open>response.json()\<close> raises.
\<close>

record response =
  status_code :: int
  json_body :: "json option"

type_synonym http_result = "py_error + response"

text \<open>Truth value of a Python object, as \<^verbatim>\<open>if x:\<close> and \<^verbatim>\<open>not x\<close> test it.\<close>

fun truthy :: "json \<Rightarrow> bool" where
  "truthy JNull = False"
| "truthy (JBool b) = b"
| "truthy (JNum n) = (n \<noteq> 0)"
| "truthy (JStr s) = (s \<noteq> [])"
| "truthy (JArr xs) = (xs \<noteq> [])"
| "truthy (JObj kvs) = (kvs \<noteq> [])"

text \<open>\<^verbatim>\<open>response.json()\<close>\<close>

definition resp_json :: "response \<Rightarrow> py_error + json" where
  "resp_json resp = (case json_body resp of None \<Rightarrow> Inl JSONDecodeError | Some j \<Rightarrow> Inr j)"

text \<open>\<^verbatim>\<open>x[0]\<close>: the keys of a parsed object are strings, so \<open>0\<close> is never one.\<close>

fun index0 :: "json \<Rightarrow> py_error + json" where
  "index0 (JArr (x # xs)) = Inr x"
| "index0 (JArr []) = Inl IndexError"
| "index0 (JStr (c # cs)) = Inr (JStr [c])"
| "index0 (JStr []) = Inl IndexError"
| "index0 (JObj kvs) = Inl KeyError"
| "index0 j = Inl (TypeError ''object is not subscriptable'')"

text \<open>\<^verbatim>\<open>x['key']\<close>\<close>

fun subscript :: "json \<Rightarrow> string \<Rightarrow> py_error + json" where
  "subscript (JObj kvs) k = (case map_of kvs k of None \<Rightarrow> Inl KeyError | Some v \<Rightarrow> Inr v)"
| "subscript (JArr xs) k = Inl (TypeError ''list indices must be integers or slices, not str'')"
| "subscript (JStr s) k = Inl (TypeError ''string indices must be integers'')"
| "subscript j k = Inl (TypeError ''object is not subscriptable'')"

text \<open>\<^verbatim>\<open>x.get('key')\<close>: only a dictionary has the method.\<close>

fun py_get :: "json \<Rightarrow> string \<Rightarrow> py_error + json" where
  "py_get (JObj kvs) k = (case map_of kvs k of None \<Rightarrow> Inr JNull | Some v \<Rightarrow> Inr v)"
| "py_get j k = Inl AttributeError"

text \<open>
  \<^verbatim>\<open>d[key] = value\<close> on a dictionary: an existing key keeps its place, a new key goes last.
\<close>

fun dict_set :: "(string \<times> json) list \<Rightarrow> string \<Rightarrow> json \<Rightarrow> (string \<times> json) list" where
  "dict_set [] k v = [(k, v)]"
| "dict_set ((k', v') # kvs) k v =
     (if k' = k then (k, v) # kvs else (k', v') # dict_set kvs k v)"

definition no_item_assignment :: "string \<Rightarrow> string" where
  "no_item_assignment tyname =
     [CHR 0x27] @ tyname @ [CHR 0x27] @ '' object does not support item assignment''"

text \<open>
  \<^verbatim>\<open>x[key] = value\<close> with a string key on any parsed value; \<open>Inl\<close> carries the text
  of the \<^verbatim>\<open>TypeError\<close> raised on a value that is not a dictionary.
\<close>

fun set_item :: "json \<Rightarrow> string \<Rightarrow> json \<Rightarrow> string + json" where
  "set_item (JObj kvs) k v = Inr (JObj (dict_set kvs k v))"
| "set_item (JArr xs) k v = Inl ''list indices must be integers or slices, not str''"
| "set_item (JStr s) k v = Inl (no_item_assignment ''str'')"
| "set_item (JNum n) k v = Inl (no_item_assignment ''int'')"
| "set_item (JBool b) k v = Inl (no_item_assignment ''bool'')"
| "set_item JNull k v = Inl (no_item_assignment ''NoneType'')"

text \<open>Sequencing of statements that may raise: the first exception ends the block.\<close>

definition and_then :: "py_error + 'a \<Rightarrow> ('a \<Rightarrow> py_error + 'b) \<Rightarrow> py_error + 'b" where
  "and_then x f = (case x of Inl e \<Rightarrow> Inl e | Inr v \<Rightarrow> f v)"

section \<open>gemini\_service: key resolution and the analysis call\<close>

text \<open>
  What the service reads from outside. \<open>user_api_keys n\<close> is the answer to the \<open>n\<close>-th
  request on the \<^verbatim>\<open>user_api_keys\<close> table (the query asks for the user's rows with
  \<^verbatim>\<open>is_active=eq.true\<close>); \<open>new_model n\<close> is what
  \<^verbatim>\<open>genai.GenerativeModel(settings.GEMINI_MODEL)\<close> raises in the \<open>n\<close>-th pass through the
  function, \<open>None\<close> when it returns; \<open>generate_content n k\<close> is the outcome of the
  \<open>n\<close>-th call of \<^verbatim>\<open>model.generate_content\<close> followed by \<^verbatim>\<open>response.text\<close>, made
  while the library is configured with key \<open>k\<close>; \<open>json_loads\<close> is \<^verbatim>\<open>json.loads\<close>,
  \<open>None\<close> where it raises \<^verbatim>\<open>JSONDecodeError\<close>.
\<close>

datatype gen_outcome = Raises string | Text string

record genv =
  user_api_keys :: "nat \<Rightarrow> http_result"
  GEMINI_API_KEY :: string
  GEMINI_MODEL :: string
  new_model :: "nat \<Rightarrow> py_error option"
  generate_content :: "nat \<Rightarrow> json \<Rightarrow> gen_outcome"
  json_loads :: "string \<Rightarrow> json option"

text \<open>
  The arguments of \<^verbatim>\<open>analyze_skill_gap\<close> on which building the prompt can raise. The
  others (name, e-mail, skills, trends) enter the prompt by string formatting, by slicing a
  list and by \<^verbatim>\<open>json.dumps\<close> of values that were parsed from JSON, none of which
  raises; they are left out, and so is the text of the prompt, on which only the answer of
  the model depends.
\<close>

record analysis_args =
  preferred_roles :: "json list"
  recent_discussions :: "json list"

text \<open>
  The state a run changes: how many key lookups were made, the key the library is configured
  with (\<^verbatim>\<open>genai.configure\<close>), and the keys under which \<^verbatim>\<open>generate_content\<close> was
  called, oldest first.
\<close>

record gstate =
  key_lookups :: nat
  configured_key :: json
  invocations :: "json list"

definition get_user_gemini_key :: "http_result \<Rightarrow> json" where
  "get_user_gemini_key r =
     (case r of
        Inl e \<Rightarrow> JNull
      | Inr resp \<Rightarrow>
          if status_code resp = 200 then
            (case resp_json resp of
               Inl e \<Rightarrow> JNull
             | Inr j \<Rightarrow>
                 if truthy j then
                   (case index0 j of
                      Inl e \<Rightarrow> JNull
                    | Inr row \<Rightarrow>
                        (case py_get row ''api_key_encrypted'' of
                           Inl e \<Rightarrow> JNull
                         | Inr encrypted_key \<Rightarrow> encrypted_key))
                 else JNull)
          else JNull)"

definition no_key_message :: string where
  "no_key_message = ''No API key available. Please add your Gemini API key in settings.''"

definition get_api_key_for_user :: "string \<Rightarrow> http_result \<Rightarrow> py_error + (json \<times> string)" where
  "get_api_key_for_user system_key r =
     (let user_key = get_user_gemini_key r in
      if truthy user_key then Inr (user_key, ''user'')
      else if system_key \<noteq> [] then Inr (JStr system_key, ''system'')
      else Inl (ValueError no_key_message))"

text \<open>
  \<^verbatim>\<open>str.lower\<close> on the letters A to Z; the two words searched for are ASCII, so other
  characters do not matter to the test below.
\<close>

definition lower_char :: "char \<Rightarrow> char" where
  "lower_char c =
     (case map_of (zip ''ABCDEFGHIJKLMNOPQRSTUVWXYZ'' ''abcdefghijklmnopqrstuvwxyz'') c of
        None \<Rightarrow> c
      | Some l \<Rightarrow> l)"

definition lower :: "string \<Rightarrow> string" where
  "lower s = map lower_char s"

text \<open>\<^verbatim>\<open>sub in s\<close> on strings\<close>

fun contains :: "string \<Rightarrow> string \<Rightarrow> bool" where
  "contains sub [] = (sub = [])"
| "contains sub (c # cs) = (prefix sub (c # cs) \<or> contains sub cs)"

definition is_quota_error :: "string \<Rightarrow> bool" where
  "is_quota_error error_msg =
     (contains ''quota'' (lower error_msg) \<or> contains ''limit'' (lower error_msg))"

text \<open>
  The body of the \<^verbatim>\<open>try\<close>: the model's text is parsed (or wrapped when it is not JSON)
  and tagged. \<open>Inl\<close> is \<^verbatim>\<open>str(e)\<close> of the exception the handler receives.
\<close>

definition generate_and_tag :: "genv \<Rightarrow> gen_outcome \<Rightarrow> string \<Rightarrow> string + json" where
  "generate_and_tag env out key_source =
     (case out of
        Raises m \<Rightarrow> Inl m
      | Text analysis_text \<Rightarrow>
          (let analysis =
                 (case json_loads env analysis_text of
                    Some j \<Rightarrow> j
                  | None \<Rightarrow> JObj [(''raw_analysis'', JStr analysis_text),
                                  (''parse_error'', JBool True)])
           in case set_item analysis ''api_key_source'' (JStr key_source) of
                Inl m \<Rightarrow> Inl m
              | Inr tagged \<Rightarrow> set_item tagged ''model_used'' (JStr (GEMINI_MODEL env))))"

definition failed_message :: "string \<Rightarrow> string" where
  "failed_message error_msg = ''Gemini analysis failed: '' @ error_msg"

text \<open>Name of a value's Python type, and a natural number in decimal, for messages.\<close>

fun type_name :: "json \<Rightarrow> string" where
  "type_name JNull = ''NoneType''"
| "type_name (JBool b) = ''bool''"
| "type_name (JNum n) = ''int''"
| "type_name (JStr s) = ''str''"
| "type_name (JArr xs) = ''list''"
| "type_name (JObj kvs) = ''dict''"

fun decimal :: "nat \<Rightarrow> string" where
  "decimal n =
     (if n < 10 then [''0123456789'' ! n]
      else decimal (n div 10) @ [''0123456789'' ! (n mod 10)])"

text \<open>
  \<^verbatim>\<open>', '.join(preferred_roles)\<close>: the first item that is not a string raises
  \<^verbatim>\<open>TypeError\<close>; \<open>i\<close> is the index of the head of the list.
\<close>

fun join_from :: "nat \<Rightarrow> json list \<Rightarrow> py_error + unit" where
  "join_from i [] = Inr ()"
| "join_from i (JStr s # xs) = join_from (Suc i) xs"
| "join_from i (x # xs) =
     Inl (TypeError (''sequence item '' @ decimal i @ '': expected str instance, ''
                     @ type_name x @ '' found''))"

text \<open>
  The element the comprehension builds for one discussion. Inside the replacement field of
  the f-string the doubled braces are not an escape: \<^verbatim>\<open>{{'title': ..., ...}}\<close> is a set
  display around a dictionary display. The three \<^verbatim>\<open>d.get\<close> calls are evaluated (their
  defaults play no part in what is raised), the dictionary is built, and putting it into
  the set raises \<^verbatim>\<open>TypeError\<close>, a dictionary being unhashable.
\<close>

definition unhashable_dict :: string where
  "unhashable_dict = ''unhashable type: '' @ [CHR 0x27] @ ''dict'' @ [CHR 0x27]"

definition discussion_entry :: "json \<Rightarrow> py_error + json" where
  "discussion_entry d =
     and_then (py_get d ''title'') (\<lambda>title.
     and_then (py_get d ''subreddit'') (\<lambda>subreddit.
     and_then (py_get d ''upvotes'') (\<lambda>upvotes.
       Inl (TypeError unhashable_dict))))"

text \<open>
  \<^verbatim>\<open>[... for d in recent_discussions[:10]]\<close>: an exception on an element ends the
  comprehension.
\<close>

fun comprehension :: "json list \<Rightarrow> py_error + json list" where
  "comprehension [] = Inr []"
| "comprehension (d # ds) =
     and_then (discussion_entry d) (\<lambda>x.
     and_then (comprehension ds) (\<lambda>xs. Inr (x # xs)))"

text \<open>
  The prompt's replacement fields, in the order in which the f-string evaluates them, as
  far as they can raise.
\<close>

definition build_prompt :: "analysis_args \<Rightarrow> py_error + unit" where
  "build_prompt a =
     and_then (join_from 0 (preferred_roles a)) (\<lambda>roles_line.
     and_then (comprehension (take 10 (recent_discussions a))) (\<lambda>discussions.
       join_from 0 (preferred_roles a)))"

text \<open>
  \<^verbatim>\<open>analyze_skill_gap\<close>. The first argument is the number of nested calls of the
  function that the interpreter still allows; a call beyond it raises
  \<^verbatim>\<open>RecursionError\<close>. \<^verbatim>\<open>genai.configure\<close> stores the key. The statements before
  the \<^verbatim>\<open>try\<close> raise to the caller as they are. The handler's recursive call is made
  inside the handler, so what it raises is not caught again; it starts the function from
  its first line, so the key is looked up again.
\<close>

fun analyze_skill_gap ::
  "nat \<Rightarrow> genv \<Rightarrow> analysis_args \<Rightarrow> gstate \<Rightarrow> (py_error + json) \<times> gstate" where
  "analyze_skill_gap 0 env a st = (Inl RecursionError, st)"
| "analyze_skill_gap (Suc frames) env a st =
     (case get_api_key_for_user (GEMINI_API_KEY env) (user_api_keys env (key_lookups st)) of
        Inl e \<Rightarrow> (Inl e, st\<lparr>key_lookups := Suc (key_lookups st)\<rparr>)
      | Inr (api_key, key_source) \<Rightarrow>
          (let st1 = st\<lparr>key_lookups := Suc (key_lookups st), configured_key := api_key\<rparr>
           in case new_model env (key_lookups st) of
                Some e \<Rightarrow> (Inl e, st1)
              | None \<Rightarrow>
                  (case build_prompt a of
                     Inl e \<Rightarrow> (Inl e, st1)
                   | Inr prompt \<Rightarrow>
                       (let out = generate_content env (length (invocations st1))
                                    (configured_key st1);
                            st2 = st1\<lparr>invocations := invocations st1 @ [configured_key st1]\<rparr>
                        in case generate_and_tag env out key_source of
                             Inr analysis \<Rightarrow> (Inr analysis, st2)
                           | Inl error_msg \<Rightarrow>
                               if is_quota_error error_msg \<and> key_source = ''user''
                                  \<and> GEMINI_API_KEY env \<noteq> []
                               then analyze_skill_gap frames env a
                                      (st2\<lparr>configured_key := JStr (GEMINI_API_KEY env)\<rparr>)
                               else (Inl (GenericException (failed_message error_msg)),
                                     st2)))))"

definition initial_state :: gstate where
  "initial_state = \<lparr>key_lookups = 0, configured_key = JNull, invocations = []\<rparr>"

section \<open>data\_service: does the user need a new analysis\<close>

text \<open>
  A parsed timestamp is naive (no offset; the number is its wall-clock time in microseconds)
  or aware (the number is its instant in UTC, in microseconds). Python orders two naive or
  two aware values and raises \<^verbatim>\<open>TypeError\<close> on a mixed pair.
\<close>

datatype datetime = Naive int | Aware int

fun dt_greater :: "datetime \<Rightarrow> datetime \<Rightarrow> py_error + bool" where
  "dt_greater (Naive a) (Naive b) = Inr (a > b)"
| "dt_greater (Aware a) (Aware b) = Inr (a > b)"
| "dt_greater a b =
     Inl (TypeError (''can'' @ [CHR 0x27] @ ''t compare offset-naive and offset-aware datetimes''))"

text \<open>
  What the check reads: the answers to its three requests, and the library function
  \<^verbatim>\<open>datetime.fromisoformat\<close>, \<open>None\<close> where it raises \<^verbatim>\<open>ValueError\<close>. Which
  strings it accepts depends on the interpreter's version, so it is a parameter.
\<close>

record denv =
  analyses_get :: http_result
  profiles_get :: http_result
  github_get :: http_result
  fromisoformat :: "string \<Rightarrow> datetime option"

text \<open>\<^verbatim>\<open>s.replace('Z', '+00:00')\<close> on a string, and on any parsed value.\<close>

definition replace_Z :: "string \<Rightarrow> string" where
  "replace_Z s = concat (map (\<lambda>c. if c = CHR ''Z'' then ''+00:00'' else [c]) s)"

definition py_replace_Z :: "json \<Rightarrow> py_error + string" where
  "py_replace_Z v = (case v of JStr s \<Rightarrow> Inr (replace_Z s) | _ \<Rightarrow> Inl AttributeError)"

definition parse_iso :: "(string \<Rightarrow> datetime option) \<Rightarrow> string \<Rightarrow> py_error + datetime" where
  "parse_iso parse s =
     (case parse s of None \<Rightarrow> Inl (ValueError ''Invalid isoformat string'') | Some d \<Rightarrow> Inr d)"

text \<open>
  Step 1 of \<^verbatim>\<open>check_if_analysis_needed\<close>: \<^verbatim>\<open>last_analysis\<close> stays \<^verbatim>\<open>None\<close>
  unless the status is 200 and the body is truthy.
\<close>

definition get_last_analysis :: "http_result \<Rightarrow> py_error + json" where
  "get_last_analysis r =
     and_then r (\<lambda>resp.
       if status_code resp = 200 then
         and_then (resp_json resp) (\<lambda>j.
           if truthy j then and_then (index0 j) (\<lambda>row. subscript row ''analyzed_at'')
           else Inr JNull)
       else Inr JNull)"

text \<open>
  Steps 2 and 3 are the same statements on two responses and two column names. The value
  read is \<^verbatim>\<open>response.json()[0].get(field)\<close>; where the outer \<^verbatim>\<open>if\<close> is not taken
  nothing is read, which has the effect of reading \<^verbatim>\<open>None\<close>.
\<close>

definition signal_value :: "http_result \<Rightarrow> string \<Rightarrow> py_error + json" where
  "signal_value r field =
     and_then r (\<lambda>resp.
       if status_code resp = 200 then
         and_then (resp_json resp) (\<lambda>j.
           if truthy j then and_then (index0 j) (\<lambda>row. py_get row field)
           else Inr JNull)
       else Inr JNull)"

text \<open>The inner \<^verbatim>\<open>if value:\<close> block; \<open>Inr True\<close> is its \<^verbatim>\<open>return True\<close>.\<close>

definition newer_than ::
  "(string \<Rightarrow> datetime option) \<Rightarrow> json \<Rightarrow> datetime \<Rightarrow> py_error + bool" where
  "newer_than parse v last_analysis_dt =
     (if truthy v then
        and_then (py_replace_Z v) (\<lambda>s.
          and_then (parse_iso parse s) (\<lambda>dt. dt_greater dt last_analysis_dt))
      else Inr False)"

text \<open>The body of the \<^verbatim>\<open>try\<close>; \<open>Inl\<close> is an exception reaching the handler.\<close>

definition check_body :: "denv \<Rightarrow> py_error + bool" where
  "check_body env =
     and_then (get_last_analysis (analyses_get env)) (\<lambda>last_analysis.
       if \<not> truthy last_analysis then Inr True
       else
         (case last_analysis of
            JStr s \<Rightarrow>
              and_then (parse_iso (fromisoformat env) (replace_Z s)) (\<lambda>last_analysis_dt.
                and_then (signal_value (profiles_get env) ''resume_uploaded_at'')
                  (\<lambda>resume_uploaded.
                and_then (newer_than (fromisoformat env) resume_uploaded last_analysis_dt)
                  (\<lambda>resume_newer.
                if resume_newer then Inr True
                else
                  and_then (signal_value (github_get env) ''last_sync_at'') (\<lambda>last_sync.
                  and_then (newer_than (fromisoformat env) last_sync last_analysis_dt)
                    (\<lambda>sync_newer.
                  if sync_newer then Inr True else Inr False)))))
          | _ \<Rightarrow> Inr True))"

text \<open>\<^verbatim>\<open>except Exception\<close>: every exception of the body becomes the answer \<open>True\<close>.\<close>

definition check_if_analysis_needed :: "denv \<Rightarrow> bool" where
  "check_if_analysis_needed env = (case check_body env of Inl e \<Rightarrow> True | Inr b \<Rightarrow> b)"

section \<open>Concrete inputs\<close>

text \<open>Answers of the key table: one active row, and no row.\<close>

definition user_row :: http_result where
  "user_row = Inr \<lparr>status_code = 200,
                   json_body = Some (JArr [JObj [(''api_key_encrypted'', JStr ''user-key'')]])\<rparr>"

definition no_row :: http_result where
  "no_row = Inr \<lparr>status_code = 200, json_body = Some (JArr [])\<rparr>"

definition loads_braces :: "string \<Rightarrow> json option" where
  "loads_braces s = (if s = ''{}'' then Some (JObj []) else None)"

text \<open>
  A user with an own key and a configured system key; the model call fails with a quota
  message once, then answers.
\<close>

definition env_quota_once :: genv where
  "env_quota_once =
     \<lparr>user_api_keys = (\<lambda>n. user_row), GEMINI_API_KEY = ''system-key'',
      GEMINI_MODEL = ''gemini-1.5-pro'', new_model = (\<lambda>n. None),
      generate_content = (\<lambda>n k. if n = 0 then Raises ''429 Quota exceeded'' else Text ''{}''),
      json_loads = loads_braces\<rparr>"

text \<open>The same user; the model call fails with a quota message twice, then answers.\<close>

definition env_quota_twice :: genv where
  "env_quota_twice =
     \<lparr>user_api_keys = (\<lambda>n. user_row), GEMINI_API_KEY = ''system-key'',
      GEMINI_MODEL = ''gemini-1.5-pro'', new_model = (\<lambda>n. None),
      generate_content = (\<lambda>n k. if n < 2 then Raises ''429 Quota exceeded'' else Text ''{}''),
      json_loads = loads_braces\<rparr>"

text \<open>The same user; the model call fails with a message that names no quota or limit.\<close>

definition env_upstream :: genv where
  "env_upstream =
     \<lparr>user_api_keys = (\<lambda>n. user_row), GEMINI_API_KEY = ''system-key'',
      GEMINI_MODEL = ''gemini-1.5-pro'', new_model = (\<lambda>n. None),
      generate_content = (\<lambda>n k. Raises ''500 Internal error''),
      json_loads = loads_braces\<rparr>"

text \<open>A user without an own key; the model call under the system key fails on quota.\<close>

definition env_system_quota :: genv where
  "env_system_quota =
     \<lparr>user_api_keys = (\<lambda>n. no_row), GEMINI_API_KEY = ''system-key'',
      GEMINI_MODEL = ''gemini-1.5-pro'', new_model = (\<lambda>n. None),
      generate_content = (\<lambda>n k. Raises ''429 Quota exceeded''),
      json_loads = loads_braces\<rparr>"

text \<open>
  Arguments whose prompt builds (no discussions), and arguments with one discussion; the
  interpreter's usual limit of a thousand frames.
\<close>

definition args_plain :: analysis_args where
  "args_plain = \<lparr>preferred_roles = [JStr ''Data Engineer''], recent_discussions = []\<rparr>"


definition frames_default :: nat where
  "frames_default = 1000"

text \<open>A parser that knows four timestamps, for the concrete runs of the check.\<close>

definition iso_table :: "string \<Rightarrow> datetime option" where
  "iso_table = map_of
     [(''2024-01-01T00:00:00+00:00'', Aware 1704067200000000),
      (''2024-01-02T00:00:00+00:00'', Aware 1704153600000000),
      (''2024-01-05T00:00:00+00:00'', Aware 1704412800000000),
      (''2024-01-05T00:00:00'', Naive 1704412800000000)]"

definition one_row :: "string \<Rightarrow> json \<Rightarrow> http_result" where
  "one_row field v = Inr \<lparr>status_code = 200, json_body = Some (JArr [JObj [(field, v)]])\<rparr>"

definition empty_rows :: http_result where
  "empty_rows = Inr \<lparr>status_code = 200, json_body = Some (JArr [])\<rparr>"

definition server_error :: http_result where
  "server_error = Inr \<lparr>status_code = 500, json_body = None\<rparr>"

definition env_never_analyzed :: denv where
  "env_never_analyzed =
     \<lparr>analyses_get = empty_rows,
      profiles_get = one_row ''resume_uploaded_at'' JNull,
      github_get = empty_rows,
      fromisoformat = iso_table\<rparr>"

definition env_tie :: denv where
  "env_tie =
     \<lparr>analyses_get = one_row ''analyzed_at'' (JStr ''2024-01-05T00:00:00Z''),
      profiles_get = one_row ''resume_uploaded_at'' (JStr ''2024-01-05T00:00:00+00:00''),
      github_get = one_row ''last_sync_at'' JNull,
      fromisoformat = iso_table\<rparr>"

definition env_quiet :: denv where
  "env_quiet =
     \<lparr>analyses_get = one_row ''analyzed_at'' (JStr ''2024-01-05T00:00:00Z''),
      profiles_get = server_error,
      github_get = empty_rows,
      fromisoformat = iso_table\<rparr>"


section \<open>Properties of gemini\_service\<close>

lemmas run_defs =
  get_api_key_for_user_def get_user_gemini_key_def resp_json_def generate_and_tag_def
  is_quota_error_def lower_def lower_char_def failed_message_def no_item_assignment_def
  initial_state_def user_row_def no_row_def loads_braces_def frames_default_def
  build_prompt_def and_then_def args_plain_def

subsection \<open>One pass through the function body\<close>

lemma resolution_fails:
  assumes "0 < frames"
      and "get_api_key_for_user (GEMINI_API_KEY env) (user_api_keys env (key_lookups st)) = Inl e"
  shows "analyze_skill_gap frames env a st = (Inl e, st\<lparr>key_lookups := Suc (key_lookups st)\<rparr>)"
  using assms by (cases frames) simp_all

lemma model_fails:
  assumes "0 < frames"
      and "get_api_key_for_user (GEMINI_API_KEY env) (user_api_keys env (key_lookups st))
             = Inr (api_key, key_source)"
      and "new_model env (key_lookups st) = Some e"
  shows "analyze_skill_gap frames env a st =
           (Inl e, st\<lparr>key_lookups := Suc (key_lookups st), configured_key := api_key\<rparr>)"
  using assms by (cases frames) (simp_all add: Let_def)


lemma attempt_succeeds:
  assumes "0 < frames"
      and "get_api_key_for_user (GEMINI_API_KEY env) (user_api_keys env (key_lookups st))
             = Inr (api_key, key_source)"
      and "new_model env (key_lookups st) = None"
      and "build_prompt a = Inr ()"
      and "generate_and_tag env (generate_content env (length (invocations st)) api_key)
             key_source = Inr analysis"
  shows "analyze_skill_gap frames env a st =
           (Inr analysis,
            st\<lparr>key_lookups := Suc (key_lookups st), configured_key := api_key,
               invocations := invocations st @ [api_key]\<rparr>)"
  using assms by (cases frames) (simp_all add: Let_def)

lemma attempt_fails_without_retry:
  assumes "0 < frames"
      and "get_api_key_for_user (GEMINI_API_KEY env) (user_api_keys env (key_lookups st))
             = Inr (api_key, key_source)"
      and "new_model env (key_lookups st) = None"
      and "build_prompt a = Inr ()"
      and "generate_and_tag env (generate_content env (length (invocations st)) api_key)
             key_source = Inl msg"
      and "\<not> (is_quota_error msg \<and> key_source = ''user'' \<and> GEMINI_API_KEY env \<noteq> [])"
  shows "analyze_skill_gap frames env a st =
           (Inl (GenericException (failed_message msg)),
            st\<lparr>key_lookups := Suc (key_lookups st), configured_key := api_key,
               invocations := invocations st @ [api_key]\<rparr>)"
  using assms by (cases frames) (auto simp: Let_def)

lemma attempt_retries:
  assumes "0 < frames"
      and "get_api_key_for_user (GEMINI_API_KEY env) (user_api_keys env (key_lookups st))
             = Inr (api_key, ''user'')"
      and "new_model env (key_lookups st) = None"
      and "build_prompt a = Inr ()"
      and "generate_and_tag env (generate_content env (length (invocations st)) api_key)
             ''user'' = Inl msg"
      and "is_quota_error msg" and "GEMINI_API_KEY env \<noteq> []"
  shows "analyze_skill_gap frames env a st =
           analyze_skill_gap (frames - 1) env a
             (st\<lparr>key_lookups := Suc (key_lookups st),
                 invocations := invocations st @ [api_key],
                 configured_key := JStr (GEMINI_API_KEY env)\<rparr>)"
  using assms by (cases frames) (simp_all add: Let_def)

lemma raised_message: "generate_and_tag env (Raises msg) key_source = Inl msg"
  by (simp add: generate_and_tag_def)

subsection \<open>Building the prompt\<close>








subsection \<open>Retries down to the recursion limit\<close>

text \<open>
  When every lookup finds a user key, a system key is configured, the prompt builds and
  every call of the model fails on quota, each pass retries: the model is called once in each
  frame the interpreter allows, and the run ends in \<^verbatim>\<open>RecursionError\<close>.
\<close>

lemma quota_on_every_call_exhausts_frames:
  assumes keys: "\<And>n. \<exists>k. get_api_key_for_user (GEMINI_API_KEY env) (user_api_keys env n)
                         = Inr (k, ''user'')"
      and sys: "GEMINI_API_KEY env \<noteq> []"
      and model: "\<And>n. new_model env n = None"
      and prompt: "build_prompt a = Inr ()"
      and gen: "\<And>n k. \<exists>m. generate_and_tag env (generate_content env n k) ''user'' = Inl m
                          \<and> is_quota_error m"
  shows "fst (analyze_skill_gap frames env a st) = Inl RecursionError
         \<and> length (invocations (snd (analyze_skill_gap frames env a st)))
             = length (invocations st) + frames"
proof (induction frames arbitrary: st)
  case 0
  show ?case by simp
next
  case (Suc frames)
  obtain k where k: "get_api_key_for_user (GEMINI_API_KEY env)
                       (user_api_keys env (key_lookups st)) = Inr (k, ''user'')"
    using keys by blast
  obtain m where m: "generate_and_tag env (generate_content env (length (invocations st)) k)
                       ''user'' = Inl m" "is_quota_error m"
    using gen by blast
  have "analyze_skill_gap (Suc frames) env a st =
          analyze_skill_gap (Suc frames - 1) env a
            (st\<lparr>key_lookups := Suc (key_lookups st),
                invocations := invocations st @ [k],
                configured_key := JStr (GEMINI_API_KEY env)\<rparr>)"
    using k model prompt m sys by (intro attempt_retries) simp_all
  with Suc.IH show ?case by simp
qed

subsection \<open>Key resolution\<close>

text \<open>
  Claim C7. When the key table answers with an active row holding a non-empty key,
  \<^verbatim>\<open>get_api_key_for_user\<close> returns that key with source \<open>user\<close>, whatever the system key
  is; and whenever it returns with source \<open>system\<close>, no truthy user key was found and the
  key returned is the non-empty system key.
\<close>

theorem user_key_preferred:
  "(r = Inr resp \<and> status_code resp = 200
      \<and> json_body resp = Some (JArr (JObj row # rows))
      \<and> map_of row ''api_key_encrypted'' = Some (JStr key) \<and> key \<noteq> []
      \<longrightarrow> get_api_key_for_user system_key r = Inr (JStr key, ''user''))
   \<and> (get_api_key_for_user system_key r = Inr (k, ''system'')
      \<longrightarrow> \<not> truthy (get_user_gemini_key r) \<and> k = JStr system_key \<and> system_key \<noteq> [])"
  by (auto simp: get_api_key_for_user_def get_user_gemini_key_def resp_json_def Let_def
           split: if_splits)

theorem user_key_preferred_witness:
  "get_api_key_for_user ''system-key'' user_row = Inr (JStr ''user-key'', ''user'')
   \<and> get_api_key_for_user ''system-key'' no_row = Inr (JStr ''system-key'', ''system'')
   \<and> \<not> truthy (get_user_gemini_key no_row)"
proof -
  have h1: "user_row = Inr \<lparr>status_code = 200,
              json_body = Some (JArr [JObj [(''api_key_encrypted'', JStr ''user-key'')]])\<rparr>
            \<and> status_code \<lparr>status_code = 200,
              json_body = Some (JArr [JObj [(''api_key_encrypted'', JStr ''user-key'')]])\<rparr> = 200
            \<and> json_body \<lparr>status_code = 200,
              json_body = Some (JArr [JObj [(''api_key_encrypted'', JStr ''user-key'')]])\<rparr>
                = Some (JArr (JObj [(''api_key_encrypted'', JStr ''user-key'')] # []))
            \<and> map_of [(''api_key_encrypted'', JStr ''user-key'')] ''api_key_encrypted''
                = Some (JStr ''user-key'')
            \<and> ''user-key'' \<noteq> []"
    by (simp add: user_row_def)
  have h2: "get_api_key_for_user ''system-key'' no_row = Inr (JStr ''system-key'', ''system'')"
    by (simp add: run_defs)
  from user_key_preferred
         [of user_row
             "\<lparr>status_code = 200,
               json_body = Some (JArr [JObj [(''api_key_encrypted'', JStr ''user-key'')]])\<rparr>"
             "[(''api_key_encrypted'', JStr ''user-key'')]" "[]" "''user-key''"
             "''system-key''" "JStr ''system-key''"]
       user_key_preferred [of no_row _ _ _ _ "''system-key''" "JStr ''system-key''"]
       h1 h2
  show ?thesis by blast
qed

text \<open>
  Claim C8, as stated, fails on a system key that is blank but not empty: with no user key
  and the system key \<open>'' ''\<close> (one space) the function returns that key with source
  \<open>system\<close>.
\<close>

theorem blank_system_key_is_returned:
  "get_api_key_for_user '' '' no_row = Inr (JStr '' '', ''system'')"
  by (simp add: run_defs)

text \<open>
  Claim C8, amended. With no truthy user key, an absent or empty (zero-length) system key
  makes \<^verbatim>\<open>get_api_key_for_user\<close> raise \<^verbatim>\<open>ValueError\<close> with the no-key message, and any
  non-empty system key, a blank one included, is returned with source \<open>system\<close>; the empty
  key is never returned as the system key.
\<close>

theorem no_key_is_an_error:
  "(\<not> truthy (get_user_gemini_key r) \<and> system_key = []
      \<longrightarrow> get_api_key_for_user system_key r = Inl (ValueError no_key_message))
   \<and> (\<not> truthy (get_user_gemini_key r) \<and> system_key \<noteq> []
      \<longrightarrow> get_api_key_for_user system_key r = Inr (JStr system_key, ''system''))
   \<and> get_api_key_for_user system_key r \<noteq> Inr (JStr [], ''system'')"
  by (auto simp: get_api_key_for_user_def Let_def)

theorem no_key_is_an_error_witness:
  "\<not> truthy (get_user_gemini_key no_row)
   \<and> get_api_key_for_user [] no_row = Inl (ValueError no_key_message)
   \<and> get_api_key_for_user ''system-key'' no_row = Inr (JStr ''system-key'', ''system'')"
proof -
  have h: "\<not> truthy (get_user_gemini_key no_row)"
    by (simp add: run_defs)
  from no_key_is_an_error [of no_row "[]"] no_key_is_an_error [of no_row "''system-key''"] h
  show ?thesis by simp
qed

subsection \<open>The analysis call and its retry\<close>

text \<open>
  Claim C1, evaluated on the code. The user has an own key, a system key is configured, no
  discussion is passed (so the prompt builds), the first call of the model fails with a
  quota message and the second answers. The handler's retry starts the function again, the
  key lookup finds the user's key again, and the second call is made under the user's key:
  the result is tagged \<open>user\<close>, not \<open>system\<close>, and the system key is never the key of a
  call.
\<close>

theorem quota_retry_uses_user_key_again:
  "analyze_skill_gap frames_default env_quota_once args_plain initial_state =
     (Inr (JObj [(''api_key_source'', JStr ''user''),
                 (''model_used'', JStr ''gemini-1.5-pro'')]),
      \<lparr>key_lookups = 2, configured_key = JStr ''user-key'',
       invocations = [JStr ''user-key'', JStr ''user-key'']\<rparr>)"
  apply (subst attempt_retries
           [where api_key = "JStr ''user-key''" and msg = "''429 Quota exceeded''"])
         apply (simp_all add: env_quota_once_def run_defs)
  apply (subst attempt_succeeds
           [where api_key = "JStr ''user-key''" and key_source = "''user''"])
       apply (simp_all add: run_defs)
  done

text \<open>
  Claim C2, as stated, fails twice. When the model fails on quota twice and then answers,
  the model is called three times; and a failure that is not retried reaches the caller
  as a new \<^verbatim>\<open>Exception\<close> whose message is the original one with a prefix, not as the
  exception that was raised.
\<close>

theorem retry_not_capped_and_failure_rewrapped:
  "analyze_skill_gap frames_default env_quota_twice args_plain initial_state =
     (Inr (JObj [(''api_key_source'', JStr ''user''),
                 (''model_used'', JStr ''gemini-1.5-pro'')]),
      \<lparr>key_lookups = 3, configured_key = JStr ''user-key'',
       invocations = [JStr ''user-key'', JStr ''user-key'', JStr ''user-key'']\<rparr>)
   \<and> generate_content env_upstream 0 (JStr ''user-key'') = Raises ''500 Internal error''
   \<and> analyze_skill_gap frames_default env_upstream args_plain initial_state =
     (Inl (GenericException ''Gemini analysis failed: 500 Internal error''),
      \<lparr>key_lookups = 1, configured_key = JStr ''user-key'',
       invocations = [JStr ''user-key'']\<rparr>)"
proof -
  have three: "analyze_skill_gap frames_default env_quota_twice args_plain initial_state =
     (Inr (JObj [(''api_key_source'', JStr ''user''),
                 (''model_used'', JStr ''gemini-1.5-pro'')]),
      \<lparr>key_lookups = 3, configured_key = JStr ''user-key'',
       invocations = [JStr ''user-key'', JStr ''user-key'', JStr ''user-key'']\<rparr>)"
    apply (subst attempt_retries
             [where api_key = "JStr ''user-key''" and msg = "''429 Quota exceeded''"])
           apply (simp_all add: env_quota_twice_def run_defs)
    apply (subst attempt_retries
             [where api_key = "JStr ''user-key''" and msg = "''429 Quota exceeded''"])
           apply (simp_all add: run_defs)
    apply (subst attempt_succeeds
             [where api_key = "JStr ''user-key''" and key_source = "''user''"])
         apply (simp_all add: run_defs)
    done
  have raised: "generate_content env_upstream 0 (JStr ''user-key'') = Raises ''500 Internal error''"
    by (simp add: env_upstream_def)
  have wrapped: "analyze_skill_gap frames_default env_upstream args_plain initial_state =
     (Inl (GenericException ''Gemini analysis failed: 500 Internal error''),
      \<lparr>key_lookups = 1, configured_key = JStr ''user-key'',
       invocations = [JStr ''user-key'']\<rparr>)"
    apply (subst attempt_fails_without_retry
             [where api_key = "JStr ''user-key''" and key_source = "''user''"
                and msg = "''500 Internal error''"])
          apply (simp_all add: env_upstream_def run_defs)
    done
  from three raised wrapped show ?thesis by blast
qed

text \<open>
  Claim C2, amended. A failure of the model call that the handler does not retry (the
  message names no quota or limit, or the key in use is not the user's, or no system key is
  configured) ends the run in whatever state it occurs, after a first attempt or after a
  retry: the model is not called again, and the caller receives a new \<^verbatim>\<open>Exception\<close>
  whose message is \<open>Gemini analysis failed: \<close> followed by the original message. That the
  model is called in this pass means that the interpreter allows the frame, that a key is
  resolved, and that the model object and the prompt are built.
\<close>

theorem unretried_failure_is_wrapped:
  assumes "0 < frames"
      and "get_api_key_for_user (GEMINI_API_KEY env) (user_api_keys env (key_lookups st))
             = Inr (api_key, key_source)"
      and "new_model env (key_lookups st) = None"
      and "build_prompt a = Inr ()"
      and "generate_content env (length (invocations st)) api_key = Raises msg"
      and "\<not> is_quota_error msg \<or> key_source \<noteq> ''user'' \<or> GEMINI_API_KEY env = []"
  shows "analyze_skill_gap frames env a st =
           (Inl (GenericException (failed_message msg)),
            st\<lparr>key_lookups := Suc (key_lookups st), configured_key := api_key,
               invocations := invocations st @ [api_key]\<rparr>)"
proof -
  from assms(5)
  have failed: "generate_and_tag env (generate_content env (length (invocations st)) api_key)
                  key_source = Inl msg"
    by (simp add: raised_message)
  from assms(6)
  have no_retry: "\<not> (is_quota_error msg \<and> key_source = ''user'' \<and> GEMINI_API_KEY env \<noteq> [])"
    by blast
  from assms(1) assms(2) assms(3) assms(4) failed no_retry
  show ?thesis by (rule attempt_fails_without_retry)
qed

theorem unretried_failure_is_wrapped_witness:
  "0 < frames_default
   \<and> get_api_key_for_user (GEMINI_API_KEY env_system_quota)
       (user_api_keys env_system_quota (key_lookups initial_state))
       = Inr (JStr ''system-key'', ''system'')
   \<and> new_model env_system_quota (key_lookups initial_state) = None
   \<and> build_prompt args_plain = Inr ()
   \<and> generate_content env_system_quota (length (invocations initial_state))
       (JStr ''system-key'') = Raises ''429 Quota exceeded''
   \<and> is_quota_error ''429 Quota exceeded''
   \<and> analyze_skill_gap frames_default env_system_quota args_plain initial_state =
       (Inl (GenericException ''Gemini analysis failed: 429 Quota exceeded''),
        \<lparr>key_lookups = 1, configured_key = JStr ''system-key'',
         invocations = [JStr ''system-key'']\<rparr>)"
proof -
  have h0: "0 < frames_default"
    by (simp add: frames_default_def)
  have h1: "get_api_key_for_user (GEMINI_API_KEY env_system_quota)
              (user_api_keys env_system_quota (key_lookups initial_state))
              = Inr (JStr ''system-key'', ''system'')"
    by (simp add: env_system_quota_def run_defs)
  have h2: "new_model env_system_quota (key_lookups initial_state) = None"
    by (simp add: env_system_quota_def)
  have h3: "build_prompt args_plain = Inr ()"
    by (simp add: run_defs)
  have h4: "generate_content env_system_quota (length (invocations initial_state))
              (JStr ''system-key'') = Raises ''429 Quota exceeded''"
    by (simp add: env_system_quota_def)
  have h5: "\<not> is_quota_error ''429 Quota exceeded'' \<or> ''system'' \<noteq> ''user''
              \<or> GEMINI_API_KEY env_system_quota = []"
    by simp
  have q: "is_quota_error ''429 Quota exceeded''"
    by (simp add: run_defs)
  from unretried_failure_is_wrapped [OF h0 h1 h2 h3 h4 h5] h0 h1 h2 h3 h4 q
  show ?thesis by (simp add: initial_state_def failed_message_def)
qed

text \<open>
  Claim C3. When the model is called a first time (the interpreter allows the frame, a key
  is resolved, the model object and the prompt are built) and that call fails with a
  message that names no quota or limit, \<^verbatim>\<open>analyze_skill_gap\<close> raises to its caller and
  the model has been called exactly once.
\<close>

theorem non_quota_failure_not_retried:
  assumes "0 < frames"
      and "get_api_key_for_user (GEMINI_API_KEY env) (user_api_keys env 0)
             = Inr (api_key, key_source)"
      and "new_model env 0 = None"
      and "build_prompt a = Inr ()"
      and "generate_content env 0 api_key = Raises msg"
      and "\<not> is_quota_error msg"
  shows "analyze_skill_gap frames env a initial_state =
           (Inl (GenericException (failed_message msg)),
            \<lparr>key_lookups = 1, configured_key = api_key, invocations = [api_key]\<rparr>)"
proof -
  have "analyze_skill_gap frames env a initial_state =
          (Inl (GenericException (failed_message msg)),
           initial_state\<lparr>key_lookups := Suc (key_lookups initial_state),
                           configured_key := api_key,
                           invocations := invocations initial_state @ [api_key]\<rparr>)"
    using assms
    by (intro attempt_fails_without_retry [where key_source = key_source])
       (simp_all add: initial_state_def raised_message)
  then show ?thesis by (simp add: initial_state_def)
qed

theorem non_quota_failure_not_retried_witness:
  "0 < frames_default
   \<and> get_api_key_for_user (GEMINI_API_KEY env_upstream) (user_api_keys env_upstream 0)
       = Inr (JStr ''user-key'', ''user'')
   \<and> new_model env_upstream 0 = None
   \<and> build_prompt args_plain = Inr ()
   \<and> generate_content env_upstream 0 (JStr ''user-key'') = Raises ''500 Internal error''
   \<and> \<not> is_quota_error ''500 Internal error''
   \<and> analyze_skill_gap frames_default env_upstream args_plain initial_state =
       (Inl (GenericException ''Gemini analysis failed: 500 Internal error''),
        \<lparr>key_lookups = 1, configured_key = JStr ''user-key'',
         invocations = [JStr ''user-key'']\<rparr>)"
proof -
  have h0: "0 < frames_default"
    by (simp add: frames_default_def)
  have h1: "get_api_key_for_user (GEMINI_API_KEY env_upstream) (user_api_keys env_upstream 0)
              = Inr (JStr ''user-key'', ''user'')"
    by (simp add: env_upstream_def run_defs)
  have h2: "new_model env_upstream 0 = None"
    by (simp add: env_upstream_def)
  have h3: "build_prompt args_plain = Inr ()"
    by (simp add: run_defs)
  have h4: "generate_content env_upstream 0 (JStr ''user-key'') = Raises ''500 Internal error''"
    by (simp add: env_upstream_def)
  have h5: "\<not> is_quota_error ''500 Internal error''"
    by (simp add: run_defs)
  from non_quota_failure_not_retried [OF h0 h1 h2 h3 h4 h5] h0 h1 h2 h3 h4 h5
  show ?thesis by (simp add: failed_message_def)
qed




section \<open>Properties of data\_service\<close>

lemmas check_defs =
  check_if_analysis_needed_def check_body_def get_last_analysis_def signal_value_def
  newer_than_def and_then_def resp_json_def py_replace_Z_def parse_iso_def replace_Z_def
  iso_table_def one_row_def empty_rows_def server_error_def

lemma dt_greater_same: "dt_greater t t = Inr False"
  by (cases t) simp_all



lemma newer_than_absent_or_tie:
  assumes "\<not> truthy v \<or> (v = JStr s \<and> parse (replace_Z s) = Some t)"
  shows "newer_than parse v t = Inr False"
  using assms
  by (auto simp: newer_than_def and_then_def py_replace_Z_def parse_iso_def dt_greater_same)

lemma check_all_ok:
  assumes "get_last_analysis (analyses_get env) = Inr (JStr s)" and "s \<noteq> []"
      and "fromisoformat env (replace_Z s) = Some t"
      and "signal_value (profiles_get env) ''resume_uploaded_at'' = Inr v1"
      and "newer_than (fromisoformat env) v1 t = Inr b1"
      and "signal_value (github_get env) ''last_sync_at'' = Inr v2"
      and "newer_than (fromisoformat env) v2 t = Inr b2"
  shows "check_if_analysis_needed env = (b1 \<or> b2)"
  using assms
  by (simp add: check_if_analysis_needed_def check_body_def and_then_def parse_iso_def)

text \<open>
  A response that is not a 200, or whose list is empty, or whose first row has no value or
  a null under the column, reads as no value without an exception.
\<close>

lemma silent_response_reads_null:
  assumes "r = Inr resp"
      and "status_code resp \<noteq> 200 \<or> json_body resp = Some (JArr [])
           \<or> (json_body resp = Some (JArr (JObj row # rows))
               \<and> (map_of row field = None \<or> map_of row field = Some JNull))"
  shows "signal_value r field = Inr JNull"
  using assms by (auto simp: signal_value_def and_then_def resp_json_def)

text \<open>
  Claim C4. When the lookup of the last analysis yields nothing (no exception, and a value
  that is \<^verbatim>\<open>None\<close> or otherwise falsy), \<^verbatim>\<open>check_if_analysis_needed\<close> returns \<open>True\<close>,
  whatever the profile and GitHub lookups would answer.
\<close>

theorem never_analyzed_needs_analysis:
  assumes "get_last_analysis (analyses_get env) = Inr v" and "\<not> truthy v"
  shows "check_if_analysis_needed (env\<lparr>profiles_get := p, github_get := g\<rparr>)"
  using assms by (simp add: check_if_analysis_needed_def check_body_def and_then_def)

theorem never_analyzed_needs_analysis_witness:
  "get_last_analysis (analyses_get env_never_analyzed) = Inr JNull \<and> \<not> truthy JNull
   \<and> check_if_analysis_needed
        (env_never_analyzed\<lparr>profiles_get := Inl RequestException,
                             github_get := one_row ''last_sync_at'' JNull\<rparr>)"
proof -
  have h1: "get_last_analysis (analyses_get env_never_analyzed) = Inr JNull"
    by (simp add: env_never_analyzed_def check_defs)
  have h2: "\<not> truthy JNull" by simp
  from never_analyzed_needs_analysis [OF h1 h2] h1 h2
  show ?thesis by blast
qed

text \<open>
  Claim C5. When the last analysis time is read and parsed, and the resume-upload value and
  the GitHub-sync value are each read without an exception and are each either absent
  (falsy) or a string that parses to the very time of the last analysis,
  \<^verbatim>\<open>check_if_analysis_needed\<close> returns \<open>False\<close>: the comparison is strict.
\<close>

theorem tie_is_not_newer:
  assumes "get_last_analysis (analyses_get env) = Inr (JStr s)" and "s \<noteq> []"
      and "fromisoformat env (replace_Z s) = Some t"
      and "signal_value (profiles_get env) ''resume_uploaded_at'' = Inr v1"
      and "\<not> truthy v1 \<or> (v1 = JStr s1 \<and> fromisoformat env (replace_Z s1) = Some t)"
      and "signal_value (github_get env) ''last_sync_at'' = Inr v2"
      and "\<not> truthy v2 \<or> (v2 = JStr s2 \<and> fromisoformat env (replace_Z s2) = Some t)"
  shows "\<not> check_if_analysis_needed env"
proof -
  have n1: "newer_than (fromisoformat env) v1 t = Inr False"
    using assms(5) by (rule newer_than_absent_or_tie)
  have n2: "newer_than (fromisoformat env) v2 t = Inr False"
    using assms(7) by (rule newer_than_absent_or_tie)
  from check_all_ok [OF assms(1) assms(2) assms(3) assms(4) n1 assms(6) n2]
  show ?thesis by simp
qed

theorem tie_is_not_newer_witness:
  "get_last_analysis (analyses_get env_tie) = Inr (JStr ''2024-01-05T00:00:00Z'')
   \<and> fromisoformat env_tie (replace_Z ''2024-01-05T00:00:00Z'') = Some (Aware 1704412800000000)
   \<and> signal_value (profiles_get env_tie) ''resume_uploaded_at''
       = Inr (JStr ''2024-01-05T00:00:00+00:00'')
   \<and> fromisoformat env_tie (replace_Z ''2024-01-05T00:00:00+00:00'')
       = Some (Aware 1704412800000000)
   \<and> signal_value (github_get env_tie) ''last_sync_at'' = Inr JNull
   \<and> \<not> check_if_analysis_needed env_tie"
proof -
  have h1: "get_last_analysis (analyses_get env_tie) = Inr (JStr ''2024-01-05T00:00:00Z'')"
    by (simp add: env_tie_def check_defs)
  have h2: "''2024-01-05T00:00:00Z'' \<noteq> []" by simp
  have h3: "fromisoformat env_tie (replace_Z ''2024-01-05T00:00:00Z'')
              = Some (Aware 1704412800000000)"
    by (simp add: env_tie_def check_defs)
  have h4: "signal_value (profiles_get env_tie) ''resume_uploaded_at''
              = Inr (JStr ''2024-01-05T00:00:00+00:00'')"
    by (simp add: env_tie_def check_defs)
  have h5p: "fromisoformat env_tie (replace_Z ''2024-01-05T00:00:00+00:00'')
              = Some (Aware 1704412800000000)"
    by (simp add: env_tie_def check_defs)
  then have h5: "\<not> truthy (JStr ''2024-01-05T00:00:00+00:00'')
           \<or> (JStr ''2024-01-05T00:00:00+00:00'' = JStr ''2024-01-05T00:00:00+00:00''
               \<and> fromisoformat env_tie (replace_Z ''2024-01-05T00:00:00+00:00'')
                   = Some (Aware 1704412800000000))"
    by simp
  have h6: "signal_value (github_get env_tie) ''last_sync_at'' = Inr JNull"
    by (simp add: env_tie_def check_defs)
  have h7: "\<not> truthy JNull
           \<or> (JNull = JStr [] \<and> fromisoformat env_tie (replace_Z []) = Some (Aware 1704412800000000))"
    by simp
  from tie_is_not_newer [OF h1 h2 h3 h4 h5 h6 h7] h1 h3 h4 h5p h6
  show ?thesis by blast
qed



text \<open>
  Claim C10. When the last analysis time is read and parsed, and the profile request and
  the GitHub request each return a response (no exception) that is not a 200, or is an
  empty list, or has a first row whose timestamp column is missing or null, neither lookup
  triggers and \<^verbatim>\<open>check_if_analysis_needed\<close> returns \<open>False\<close>.
\<close>

theorem silent_lookup_is_absent_signal:
  assumes "get_last_analysis (analyses_get env) = Inr (JStr s)" and "s \<noteq> []"
      and "fromisoformat env (replace_Z s) = Some t"
      and "profiles_get env = Inr p"
      and "status_code p \<noteq> 200 \<or> json_body p = Some (JArr [])
           \<or> (json_body p = Some (JArr (JObj prow # prows))
               \<and> (map_of prow ''resume_uploaded_at'' = None
                   \<or> map_of prow ''resume_uploaded_at'' = Some JNull))"
      and "github_get env = Inr g"
      and "status_code g \<noteq> 200 \<or> json_body g = Some (JArr [])
           \<or> (json_body g = Some (JArr (JObj grow # grows))
               \<and> (map_of grow ''last_sync_at'' = None
                   \<or> map_of grow ''last_sync_at'' = Some JNull))"
  shows "\<not> check_if_analysis_needed env"
proof -
  have v1: "signal_value (profiles_get env) ''resume_uploaded_at'' = Inr JNull"
    using assms(4) assms(5) by (rule silent_response_reads_null)
  have v2: "signal_value (github_get env) ''last_sync_at'' = Inr JNull"
    using assms(6) assms(7) by (rule silent_response_reads_null)
  have n: "newer_than (fromisoformat env) JNull t = Inr False"
    by (simp add: newer_than_def)
  from check_all_ok [OF assms(1) assms(2) assms(3) v1 n v2 n]
  show ?thesis by simp
qed

theorem silent_lookup_is_absent_signal_witness:
  "get_last_analysis (analyses_get env_quiet) = Inr (JStr ''2024-01-05T00:00:00Z'')
   \<and> fromisoformat env_quiet (replace_Z ''2024-01-05T00:00:00Z'')
       = Some (Aware 1704412800000000)
   \<and> profiles_get env_quiet = Inr \<lparr>status_code = 500, json_body = None\<rparr>
   \<and> github_get env_quiet = Inr \<lparr>status_code = 200, json_body = Some (JArr [])\<rparr>
   \<and> \<not> check_if_analysis_needed env_quiet"
proof -
  have h1: "get_last_analysis (analyses_get env_quiet) = Inr (JStr ''2024-01-05T00:00:00Z'')"
    by (simp add: env_quiet_def check_defs)
  have h2: "''2024-01-05T00:00:00Z'' \<noteq> []" by simp
  have h3: "fromisoformat env_quiet (replace_Z ''2024-01-05T00:00:00Z'')
              = Some (Aware 1704412800000000)"
    by (simp add: env_quiet_def check_defs)
  have h4: "profiles_get env_quiet = Inr \<lparr>status_code = 500, json_body = None\<rparr>"
    by (simp add: env_quiet_def server_error_def)
  have h5: "status_code \<lparr>status_code = 500, json_body = None\<rparr> \<noteq> 200
            \<or> json_body \<lparr>status_code = 500, json_body = None\<rparr> = Some (JArr [])
            \<or> (json_body \<lparr>status_code = 500, json_body = None\<rparr> = Some (JArr (JObj [] # []))
                \<and> (map_of [] ''resume_uploaded_at'' = None
                    \<or> map_of [] ''resume_uploaded_at'' = Some JNull))"
    by simp
  have h6: "github_get env_quiet = Inr \<lparr>status_code = 200, json_body = Some (JArr [])\<rparr>"
    by (simp add: env_quiet_def empty_rows_def)
  have h7: "status_code \<lparr>status_code = 200, json_body = Some (JArr [])\<rparr> \<noteq> 200
            \<or> json_body \<lparr>status_code = 200, json_body = Some (JArr [])\<rparr> = Some (JArr [])
            \<or> (json_body \<lparr>status_code = 200, json_body = Some (JArr [])\<rparr>
                  = Some (JArr (JObj [] # []))
                \<and> (map_of [] ''last_sync_at'' = None \<or> map_of [] ''last_sync_at'' = Some JNull))"
    by simp
  from silent_lookup_is_absent_signal [OF h1 h2 h3 h4 h5 h6 h7] h1 h3 h4 h6
  show ?thesis by blast
qed

end
